theory Spec2Isabelle
  imports Main "HOL-Library.Sublist"
begin

section \<open>The embedded connection of composer-connector-embedded\<close>

text \<open>
  A shallow embedding of \<^verbatim>\<open>lib/embeddedconnection.js\<close>. Every asynchronous method
  is a function from the state it reads to its outcome and the state it leaves: a rejected
  promise is \<open>Inl\<close> of the error, a resolved one \<open>Inr\<close> of the value. The state is
  returned in both cases, since the source never undoes a mutation when it throws.
\<close>

subsection \<open>Errors\<close>

text \<open>
  The connection itself only throws \<^verbatim>\<open>new Error(message)\<close>. Reading a property of
  \<^verbatim>\<open>undefined\<close> makes the runtime throw a \<^verbatim>\<open>TypeError\<close>, whose wording depends on
  the runtime: the model keeps the name of the property that was read. The two remaining
  constructors are the rejections of the identity collection.
\<close>

datatype error =
    Error string
  | TypeError string
  | NotFound string
  | DuplicateKey string

subsection \<open>Identities\<close>

record identity_options =
  issuer :: "bool option"
  affiliation :: "string option"

record identity =
  "identifier" :: string
  name :: string
  issuer :: string
  secret :: string
  certificate :: string
  publicKey :: string
  privateKey :: string
  imported :: bool
  options :: identity_options

text \<open>What \<^verbatim>\<open>CertificateUtil.generate\<close> returns.\<close>

record keys =
  publicKey :: string
  privateKey :: string
  certificate :: string

text \<open>
  The collaborators whose results the connection cannot compute: the certificate utility,
  the getters of a parsed certificate, and the uuid library. Generating a certificate and
  drawing a uuid are effects, so the environment answers the n-th call and the state counts
  the calls made so far.
\<close>

record environment =
  generate :: "nat \<Rightarrow> string \<Rightarrow> keys"
  getIdentifier :: "string \<Rightarrow> string"
  getName :: "string \<Rightarrow> string"
  getIssuer :: "string \<Rightarrow> string"
  v4 :: "nat \<Rightarrow> string"

type_synonym collection = "string \<rightharpoonup> identity"

text \<open>
  The state of one connection: its data service holds the collection \<^verbatim>\<open>identities\<close>
  (\<open>None\<close> until it is first ensured), and two counters record how many certificates were
  generated and how many uuids were drawn.
\<close>

record session =
  dataService :: "collection option"
  generated :: nat
  drawn :: nat

text \<open>
  Modelled from the spec: the identity collection (the data service and its data collection
  are not among the sources). \<^verbatim>\<open>ensureCollection\<close> returns the collection, creating it
  if absent; \<^verbatim>\<open>get\<close> fails on a missing key, \<^verbatim>\<open>exists\<close> tests a key, \<^verbatim>\<open>add\<close> fails on
  a duplicate key.
\<close>

definition ensureCollection :: "session \<Rightarrow> session" where
  "ensureCollection s =
     (case dataService s of
        None \<Rightarrow> s\<lparr>dataService := Some Map.empty\<rparr>
      | Some c \<Rightarrow> s)"

definition stored :: "session \<Rightarrow> collection" where
  "stored s = (case dataService s of None \<Rightarrow> Map.empty | Some c \<Rightarrow> c)"

definition collection_get :: "session \<Rightarrow> string \<Rightarrow> error + identity" where
  "collection_get s k = (case stored s k of None \<Rightarrow> Inl (NotFound k) | Some v \<Rightarrow> Inr v)"

definition collection_exists :: "session \<Rightarrow> string \<Rightarrow> bool" where
  "collection_exists s k = (stored s k \<noteq> None)"

definition collection_add :: "string \<Rightarrow> identity \<Rightarrow> session \<Rightarrow> (error + unit) \<times> session" where
  "collection_add k v s =
     (if stored s k \<noteq> None then (Inl (DuplicateKey k), s)
      else (Inr (), s\<lparr>dataService := Some ((stored s)(k \<mapsto> v))\<rparr>))"

text \<open>\<^verbatim>\<open>getIdentities\<close>: the handle of the collection, which is ensured on the way.\<close>

definition getIdentities :: "session \<Rightarrow> session" where
  "getIdentities s = ensureCollection s"

text \<open>\<^verbatim>\<open>_createAdminIdentity\<close>\<close>

definition createAdminIdentity :: "environment \<Rightarrow> session \<Rightarrow> (error + identity) \<times> session" where
  "createAdminIdentity env s =
     (let k = generate env (generated s) ''admin'';
          s1 = s\<lparr>generated := Suc (generated s)\<rparr>;
          identity = \<lparr>identity.identifier = getIdentifier env (keys.certificate k),
                      identity.name = getName env (keys.certificate k),
                      identity.issuer = getIssuer env (keys.certificate k),
                      identity.secret = ''adminpw'',
                      identity.certificate = keys.certificate k,
                      identity.publicKey = keys.publicKey k,
                      identity.privateKey = keys.privateKey k,
                      identity.imported = False,
                      identity.options =
                        \<lparr>identity_options.issuer = Some True,
                         identity_options.affiliation = None\<rparr>\<rparr>;
          s2 = getIdentities s1
      in case collection_add ''admin'' identity s2 of
           (Inl e, s3) \<Rightarrow> (Inl e, s3)
         | (Inr _, s3) \<Rightarrow>
             (case collection_add (identifier identity) identity s3 of
                (Inl e, s4) \<Rightarrow> (Inl e, s4)
              | (Inr _, s4) \<Rightarrow> (Inr identity, s4)))"

text \<open>\<^verbatim>\<open>getIdentity\<close>: any failure of the lookup is caught, and rethrown unless the name is admin.\<close>

definition getIdentity :: "environment \<Rightarrow> string \<Rightarrow> session \<Rightarrow> (error + identity) \<times> session" where
  "getIdentity env identityName s =
     (let s1 = getIdentities s
      in case collection_get s1 identityName of
           Inr v \<Rightarrow> (Inr v, s1)
         | Inl e \<Rightarrow>
             if identityName = ''admin'' then createAdminIdentity env s1
             else (Inl e, s1))"

text \<open>The message of the error \<^verbatim>\<open>testIdentity\<close> throws on a secret that does not match.\<close>

definition secret_mismatch :: "string \<Rightarrow> string \<Rightarrow> string \<Rightarrow> string" where
  "secret_mismatch identitySecret identityName storedSecret =
     ''The secret '' @ identitySecret @ '' specified for the identity '' @ identityName
       @ '' does not match the stored secret '' @ storedSecret"

definition testIdentity ::
  "environment \<Rightarrow> string \<Rightarrow> string \<Rightarrow> session \<Rightarrow> (error + identity) \<times> session" where
  "testIdentity env identityName identitySecret s =
     (case getIdentity env identityName s of
        (Inl e, s1) \<Rightarrow> (Inl e, s1)
      | (Inr identity, s1) \<Rightarrow>
          if imported identity then (Inr identity, s1)
          else if identityName = ''admin'' then (Inr identity, s1)
          else if secret identity \<noteq> identitySecret then
            (Inl (Error (secret_mismatch identitySecret identityName (secret identity))), s1)
          else (Inr identity, s1))"

text \<open>
  A security context carries the identity that logged in and the chaincode id it is bound
  to, \<^verbatim>\<open>null\<close> (here \<open>None\<close>) when the login named no business network.
\<close>

record securityContext =
  ctx_identity :: identity
  ctx_chaincodeID :: "string option"

text \<open>What \<^verbatim>\<open>createIdentity\<close> resolves with.\<close>

record credentials =
  userID :: string
  userSecret :: string

text \<open>The message of the error \<^verbatim>\<open>createIdentity\<close> throws for a caller that is no issuer.\<close>

definition permission_denied :: "string \<Rightarrow> string \<Rightarrow> string" where
  "permission_denied currentName identityName =
     ''The identity '' @ currentName
       @ '' does not have permission to create a new identity '' @ identityName"

text \<open>
  \<^verbatim>\<open>createIdentity\<close>. The optional argument \<^verbatim>\<open>options\<close> is \<open>None\<close> when the caller
  leaves it out, and \<^verbatim>\<open>options || {}\<close> then stores the empty object. The flag
  \<^verbatim>\<open>options.issuer\<close> is a boolean that may be absent; absent and false are both falsy.
\<close>

definition createIdentity ::
  "environment \<Rightarrow> securityContext \<Rightarrow> string \<Rightarrow> identity_options option \<Rightarrow> session
     \<Rightarrow> (error + credentials) \<times> session" where
  "createIdentity env securityContext identityName opts s =
     (let currentIdentity = ctx_identity securityContext
      in if identity_options.issuer (identity.options currentIdentity) \<noteq> Some True then
           (Inl (Error (permission_denied (identity.name currentIdentity) identityName)), s)
         else
           (let s1 = getIdentities s
            in if collection_exists s1 identityName then
                 (case collection_get s1 identityName of
                    Inl e \<Rightarrow> (Inl e, s1)
                  | Inr identity \<Rightarrow>
                      (Inr \<lparr>userID = identity.name identity,
                            userSecret = identity.secret identity\<rparr>, s1))
               else
                 (let k = generate env (generated s1) identityName;
                      s2 = s1\<lparr>generated := Suc (generated s1)\<rparr>;
                      fresh = take 8 (v4 env (drawn s2));
                      s3 = s2\<lparr>drawn := Suc (drawn s2)\<rparr>;
                      identity =
                        \<lparr>identity.identifier = getIdentifier env (keys.certificate k),
                         identity.name = getName env (keys.certificate k),
                         identity.issuer = getIssuer env (keys.certificate k),
                         identity.secret = fresh,
                         identity.certificate = keys.certificate k,
                         identity.publicKey = keys.publicKey k,
                         identity.privateKey = keys.privateKey k,
                         identity.imported = False,
                         identity.options =
                           (case opts of
                              None \<Rightarrow> \<lparr>identity_options.issuer = None,
                                        identity_options.affiliation = None\<rparr>
                            | Some given \<Rightarrow> given)\<rparr>
                  in case collection_add identityName identity s3 of
                       (Inl e, s5) \<Rightarrow> (Inl e, s5)
                     | (Inr _, s5) \<Rightarrow>
                         (case collection_add (identity.identifier identity) identity s5 of
                            (Inl e, s6) \<Rightarrow> (Inl e, s6)
                          | (Inr _, s6) \<Rightarrow>
                              (Inr \<lparr>userID = identity.name identity,
                                    userSecret = identity.secret identity\<rparr>, s6)))))"

subsection \<open>The registry of business networks and chaincodes\<close>

text \<open>
  A container is an opaque handle that knows its uuid. The connection that makes a call is
  passed to the engine inside the execution context; the model keeps its two fields.
\<close>

record container =
  getUUID :: string

record connection =
  connectionProfile :: string
  connection_businessNetworkIdentifier :: "string option"

text \<open>
  \<^verbatim>\<open>new EmbeddedContext(engine, identity, this)\<close>: the engine in it is always the one the
  context is handed to, so the model keeps the identity and the connection.
\<close>

record embeddedContext =
  context_identity :: identity
  context_connection :: connection

text \<open>
  The engine is a collaborator: each entry point answers with a rejection or a value, and
  the type \<open>'d\<close> is the data a chaincode function returns.
\<close>

record 'd engine =
  init :: "embeddedContext \<Rightarrow> string \<Rightarrow> string list \<Rightarrow> error + unit"
  query :: "embeddedContext \<Rightarrow> string \<Rightarrow> string list \<Rightarrow> error + 'd"
  invoke :: "embeddedContext \<Rightarrow> string \<Rightarrow> string list \<Rightarrow> error + 'd"

record 'd chaincode =
  uuid :: string
  container :: container
  engine :: "'d engine"

text \<open>
  The two module-level tables, and the number of containers created so far: creating a
  container is an effect, and the factories \<^verbatim>\<open>createContainer\<close> and \<^verbatim>\<open>createEngine\<close>
  are the seams through which the connection obtains a fresh container and its engine.
\<close>

record 'd registry =
  businessNetworks :: "string \<rightharpoonup> string"
  chaincodes :: "string \<rightharpoonup> 'd chaincode"
  created :: nat

record 'd factory =
  createContainer :: "nat \<Rightarrow> container"
  createEngine :: "container \<Rightarrow> 'd engine"

text \<open>The key of a binding is the template string \<^verbatim>\<open>`${businessNetworkIdentifier}@${connectionProfile}`\<close>.\<close>

definition network_key :: "string \<Rightarrow> string \<Rightarrow> string" where
  "network_key businessNetworkIdentifier profile = businessNetworkIdentifier @ ''@'' @ profile"

definition reset :: "'d registry \<Rightarrow> 'd registry" where
  "reset r = r\<lparr>businessNetworks := Map.empty, chaincodes := Map.empty\<rparr>"

definition addBusinessNetwork :: "string \<Rightarrow> string \<Rightarrow> string \<Rightarrow> 'd registry \<Rightarrow> 'd registry" where
  "addBusinessNetwork businessNetworkIdentifier profile chaincodeUUID r =
     r\<lparr>businessNetworks :=
         (businessNetworks r)(network_key businessNetworkIdentifier profile \<mapsto> chaincodeUUID)\<rparr>"

definition getBusinessNetwork :: "string \<Rightarrow> string \<Rightarrow> 'd registry \<Rightarrow> string option" where
  "getBusinessNetwork businessNetworkIdentifier profile r =
     businessNetworks r (network_key businessNetworkIdentifier profile)"

text \<open>
  \<^verbatim>\<open>deleteBusinessNetwork\<close> tests the chaincode id it finds for truthiness: a missing
  binding is \<^verbatim>\<open>undefined\<close>, and the empty string is falsy as well.
\<close>

definition deleteBusinessNetwork :: "string \<Rightarrow> string \<Rightarrow> 'd registry \<Rightarrow> 'd registry" where
  "deleteBusinessNetwork businessNetworkIdentifier profile r =
     (case businessNetworks r (network_key businessNetworkIdentifier profile) of
        None \<Rightarrow> r
      | Some chaincodeUUID \<Rightarrow>
          if chaincodeUUID = [] then r
          else r\<lparr>chaincodes := (chaincodes r)(chaincodeUUID := None),
                 businessNetworks :=
                   (businessNetworks r)(network_key businessNetworkIdentifier profile := None)\<rparr>)"

definition addChaincode :: "string \<Rightarrow> container \<Rightarrow> 'd engine \<Rightarrow> 'd registry \<Rightarrow> 'd registry" where
  "addChaincode chaincodeUUID c e r =
     r\<lparr>chaincodes :=
         (chaincodes r)(chaincodeUUID \<mapsto> \<lparr>uuid = chaincodeUUID, container = c, engine = e\<rparr>)\<rparr>"

text \<open>
  \<^verbatim>\<open>getChaincode\<close> indexes the table with whatever the security context holds; a
  \<^verbatim>\<open>null\<close> id is converted to the property key \<^verbatim>\<open>"null"\<close>. Both tables are read
  as maps of the properties that were put into them: a key of a binding contains an at
  sign, and a chaincode id is a uuid, so neither is the name of an inherited property.
\<close>

definition getChaincode :: "string option \<Rightarrow> 'd registry \<Rightarrow> 'd chaincode option" where
  "getChaincode chaincodeUUID r =
     (case chaincodeUUID of
        None \<Rightarrow> chaincodes r ''null''
      | Some k \<Rightarrow> chaincodes r k)"

subsection \<open>Starting, undeploying and dispatching\<close>

text \<open>
  \<^verbatim>\<open>start\<close>. Its last argument, the start options, is never read and is left out. The
  outcome of the call is the outcome of the engine's \<^verbatim>\<open>init\<close>, which is awaited last and
  outside any \<^verbatim>\<open>try\<close>.
\<close>

definition start ::
  "'d factory \<Rightarrow> connection \<Rightarrow> securityContext \<Rightarrow> string \<Rightarrow> string \<Rightarrow> 'd registry
     \<Rightarrow> (error + unit) \<times> 'd registry" where
  "start f conn securityContext businessNetworkIdentifier startTransaction r =
     (let c = createContainer f (created r);
          r1 = r\<lparr>created := Suc (created r)\<rparr>;
          identity = ctx_identity securityContext;
          chaincodeUUID = getUUID c;
          e = createEngine f c;
          r2 = addBusinessNetwork businessNetworkIdentifier (connectionProfile conn)
                 chaincodeUUID r1;
          r3 = addChaincode chaincodeUUID c e r2;
          ctx = \<lparr>context_identity = identity, context_connection = conn\<rparr>
      in (init e ctx ''init'' [startTransaction], r3))"

definition undeploy ::
  "connection \<Rightarrow> securityContext \<Rightarrow> string \<Rightarrow> 'd registry \<Rightarrow> (error + unit) \<times> 'd registry" where
  "undeploy conn securityContext businessNetworkIdentifier r =
     (Inr (), deleteBusinessNetwork businessNetworkIdentifier (connectionProfile conn) r)"

text \<open>
  \<^verbatim>\<open>queryChainCode\<close> and \<^verbatim>\<open>invokeChainCode\<close> read \<^verbatim>\<open>chaincode.engine\<close> without
  testing the chaincode they looked up. The first argument of the query stands for
  \<^verbatim>\<open>Buffer.from(JSON.stringify(data))\<close>.
\<close>

definition queryChainCode ::
  "('d \<Rightarrow> string) \<Rightarrow> connection \<Rightarrow> securityContext \<Rightarrow> string \<Rightarrow> string list \<Rightarrow> 'd registry
     \<Rightarrow> error + string" where
  "queryChainCode stringify conn securityContext functionName args r =
     (let identity = ctx_identity securityContext;
          chaincodeUUID = ctx_chaincodeID securityContext
      in case getChaincode chaincodeUUID r of
           None \<Rightarrow> Inl (TypeError ''engine'')
         | Some cc \<Rightarrow>
             (case query (engine cc)
                     \<lparr>context_identity = identity, context_connection = conn\<rparr>
                     functionName args of
                Inl err \<Rightarrow> Inl err
              | Inr data \<Rightarrow> Inr (stringify data)))"

definition invokeChainCode ::
  "connection \<Rightarrow> securityContext \<Rightarrow> string \<Rightarrow> string list \<Rightarrow> 'd registry \<Rightarrow> error + unit" where
  "invokeChainCode conn securityContext functionName args r =
     (let identity = ctx_identity securityContext;
          chaincodeUUID = ctx_chaincodeID securityContext
      in case getChaincode chaincodeUUID r of
           None \<Rightarrow> Inl (TypeError ''engine'')
         | Some cc \<Rightarrow>
             (case invoke (engine cc)
                     \<lparr>context_identity = identity, context_connection = conn\<rparr>
                     functionName args of
                Inl err \<Rightarrow> Inl err
              | Inr data \<Rightarrow> Inr ()))"

subsection \<open>Values of the test suite\<close>

text \<open>
  The identity, the connection and the stubs the repository's tests work with: concrete
  inputs on which the theorems below are instantiated.
\<close>

definition bob :: identity where
  "bob =
     \<lparr>identity.identifier = ''ae360f8a430cc34deb2a8901ef3efed7a2eed753d909032a009f6984607be65a'',
      identity.name = ''bob1'',
      identity.issuer = ''ce295bc0df46512670144b84af55f3d9a3e71b569b1e38baba3f032dc3000665'',
      identity.secret = ''suchsecret'',
      identity.certificate = [],
      identity.publicKey = [],
      identity.privateKey = [],
      identity.imported = False,
      identity.options =
        \<lparr>identity_options.issuer = Some True, identity_options.affiliation = None\<rparr>\<rparr>"

definition carol :: identity where
  "carol = bob\<lparr>identity.name := ''carol'', identity.imported := True\<rparr>"

definition mallory :: identity where
  "mallory =
     bob\<lparr>identity.name := ''mallory'',
         identity.options :=
           \<lparr>identity_options.issuer = Some False, identity_options.affiliation = None\<rparr>\<rparr>"

definition stub_environment :: environment where
  "stub_environment =
     \<lparr>generate = (\<lambda>n commonName.
        \<lparr>keys.publicKey = ''public'', keys.privateKey = ''private'',
         keys.certificate = commonName\<rparr>),
      getIdentifier = (\<lambda>pem. ''fingerprint of '' @ pem),
      getName = (\<lambda>pem. pem),
      getIssuer = (\<lambda>pem. ''a3e3a2d42f1c55e1485c4d06ba8b5c64f83f697939346687b32bacaae5e38c8f''),
      v4 = (\<lambda>n. ''f892c30a-7799-4eac-8377-06da53600e5'')\<rparr>"

definition new_session :: session where
  "new_session = \<lparr>dataService = None, generated = 0, drawn = 0\<rparr>"

definition bob_session :: session where
  "bob_session =
     \<lparr>dataService = Some [''bob1'' \<mapsto> bob, ''carol'' \<mapsto> carol], generated = 0, drawn = 0\<rparr>"

definition devFabric1 :: connection where
  "devFabric1 =
     \<lparr>connectionProfile = ''devFabric1'',
      connection_businessNetworkIdentifier = Some ''org.acme.business''\<rparr>"

definition bound_context :: securityContext where
  "bound_context =
     \<lparr>ctx_identity = bob, ctx_chaincodeID = Some ''6eeb8858-eced-4a32-b1cd-2491f1e3718f''\<rparr>"

definition unbound_context :: securityContext where
  "unbound_context = \<lparr>ctx_identity = bob, ctx_chaincodeID = None\<rparr>"

definition mallory_context :: securityContext where
  "mallory_context = \<lparr>ctx_identity = mallory, ctx_chaincodeID = None\<rparr>"

definition mock_engine :: "error + unit \<Rightarrow> unit engine" where
  "mock_engine outcome =
     \<lparr>init = (\<lambda>ctx functionName args. outcome),
      query = (\<lambda>ctx functionName args. outcome),
      invoke = (\<lambda>ctx functionName args. outcome)\<rparr>"

definition mock_factory :: "error + unit \<Rightarrow> unit factory" where
  "mock_factory outcome =
     \<lparr>createContainer = (\<lambda>n. \<lparr>getUUID = ''133c00a3-8555-4aa5-9165-9de9a8f8a838''\<rparr>),
      createEngine = (\<lambda>c. mock_engine outcome)\<rparr>"

definition empty_registry :: "unit registry" where
  "empty_registry = \<lparr>businessNetworks = Map.empty, chaincodes = Map.empty, created = 0\<rparr>"

definition live_registry :: "unit registry" where
  "live_registry =
     addChaincode ''6eeb8858-eced-4a32-b1cd-2491f1e3718f''
       \<lparr>getUUID = ''6eeb8858-eced-4a32-b1cd-2491f1e3718f''\<rparr> (mock_engine (Inr ()))
       (addBusinessNetwork ''testnetwork'' ''devFabric1''
          ''6eeb8858-eced-4a32-b1cd-2491f1e3718f'' (empty_registry\<lparr>created := 1\<rparr>))"

section \<open>Properties of the identity manager\<close>

subsection \<open>The identity collection\<close>

lemma stored_Some_dataService: "stored s k = Some v \<Longrightarrow> getIdentities s = s"
  by (auto simp: stored_def getIdentities_def ensureCollection_def split: option.splits)

lemma stored_getIdentities: "stored (getIdentities s) = stored s"
  by (auto simp: stored_def getIdentities_def ensureCollection_def split: option.splits)

lemma generated_getIdentities: "generated (getIdentities s) = generated s"
  by (auto simp: getIdentities_def ensureCollection_def split: option.splits)

lemma stored_dataService_update: "stored (s\<lparr>dataService := Some m\<rparr>) = m"
  by (simp add: stored_def)

lemma stored_generated_update: "stored (s\<lparr>generated := n\<rparr>) = stored s"
  by (simp add: stored_def)

lemma stored_drawn_update: "stored (s\<lparr>drawn := n\<rparr>) = stored s"
  by (simp add: stored_def)

lemma collection_add_fresh:
  "stored s k = None \<Longrightarrow>
     collection_add k v s = (Inr (), s\<lparr>dataService := Some ((stored s)(k \<mapsto> v))\<rparr>)"
  by (simp add: collection_add_def)

lemma collection_add_Inr:
  "collection_add k v s = (Inr u, t) \<Longrightarrow>
     stored s k = None \<and> t = s\<lparr>dataService := Some ((stored s)(k \<mapsto> v))\<rparr>"
  by (auto simp: collection_add_def split: if_splits)

text \<open>
  Both \<^verbatim>\<open>_createAdminIdentity\<close> and \<^verbatim>\<open>createIdentity\<close> add their record twice, under
  the name and under the identifier. When both additions succeed, the two keys were free
  and distinct, and the collection has grown by exactly these two entries.
\<close>

lemma add_twice_Inr:
  assumes "(case collection_add k v s of
              (Inl e, s5) \<Rightarrow> (Inl e, s5)
            | (Inr _, s5) \<Rightarrow>
                (case collection_add k' v s5 of
                   (Inl e, s6) \<Rightarrow> (Inl e, s6)
                 | (Inr _, s6) \<Rightarrow> (Inr r, s6))) = (Inr res, t)"
  shows "res = r \<and> stored s k = None \<and> k' \<noteq> k \<and> stored s k' = None
       \<and> stored t = (stored s)(k \<mapsto> v, k' \<mapsto> v)"
  using assms
  by (auto simp: stored_dataService_update
      split: prod.splits sum.splits if_splits dest!: collection_add_Inr)

lemma funpow_fixed: "f x = x \<Longrightarrow> (f ^^ n) x = x"
  by (induction n) simp_all

subsection \<open>Looking an identity up\<close>

lemma getIdentity_found:
  "stored s identityName = Some idy \<Longrightarrow> getIdentity env identityName s = (Inr idy, s)"
  by (simp add: getIdentity_def Let_def collection_get_def stored_Some_dataService)

lemma getIdentity_missing:
  "identityName \<noteq> ''admin'' \<Longrightarrow> stored s identityName = None \<Longrightarrow>
     getIdentity env identityName s = (Inl (NotFound identityName), getIdentities s)"
  by (simp add: getIdentity_def Let_def collection_get_def stored_getIdentities)

text \<open>
  C8. For a name other than admin that has no stored record, \<^verbatim>\<open>getIdentity\<close> fails with
  the collection's not-found rejection, which is exactly the failure of the lookup; no
  certificate is generated and no record is stored on the way.
\<close>

theorem getIdentity_not_found:
  assumes "identityName \<noteq> ''admin''" and "stored s identityName = None"
  shows "getIdentity env identityName s = (Inl (NotFound identityName), getIdentities s)
       \<and> fst (getIdentity env identityName s) = collection_get (getIdentities s) identityName
       \<and> stored (snd (getIdentity env identityName s)) = stored s
       \<and> generated (snd (getIdentity env identityName s)) = generated s"
  using assms
  by (simp add: getIdentity_missing collection_get_def stored_getIdentities
      generated_getIdentities)

theorem getIdentity_not_found_witness:
  "getIdentity stub_environment ''doge'' bob_session = (Inl (NotFound ''doge''), bob_session)
   \<and> generated (snd (getIdentity stub_environment ''doge'' bob_session)) = 0"
  using getIdentity_not_found [of "''doge''" bob_session stub_environment]
  by (simp add: bob_session_def stored_def getIdentities_def ensureCollection_def)

subsection \<open>The bootstrap of the admin identity\<close>

lemma createAdminIdentity_Inr:
  assumes "createAdminIdentity env s = (Inr adm, t)"
  shows "stored s ''admin'' = None
       \<and> stored s (identity.identifier adm) = None
       \<and> identity.identifier adm \<noteq> ''admin''
       \<and> stored t = (stored s)(''admin'' \<mapsto> adm, identity.identifier adm \<mapsto> adm)"
  using assms
  by (auto simp: createAdminIdentity_def Let_def stored_getIdentities stored_generated_update
      stored_dataService_update
      split: prod.splits sum.splits if_splits dest!: collection_add_Inr)

lemma createAdminIdentity_fresh:
  assumes "stored s ''admin'' = None"
    and "stored s (getIdentifier env (keys.certificate (generate env (generated s) ''admin''))) = None"
    and "getIdentifier env (keys.certificate (generate env (generated s) ''admin'')) \<noteq> ''admin''"
  shows "\<exists>adm t. createAdminIdentity env s = (Inr adm, t)
       \<and> identity.identifier adm =
           getIdentifier env (keys.certificate (generate env (generated s) ''admin''))
       \<and> identity.secret adm = ''adminpw''
       \<and> \<not> identity.imported adm
       \<and> identity.options adm =
           \<lparr>identity_options.issuer = Some True, identity_options.affiliation = None\<rparr>"
  using assms
  by (simp add: createAdminIdentity_def Let_def stored_getIdentities stored_generated_update
      stored_dataService_update collection_add_fresh)

text \<open>
  C5. When no admin record is stored, and the identifier of the freshly generated
  certificate is a free key other than admin, the first \<^verbatim>\<open>getIdentity("admin")\<close> builds
  the admin identity with the secret adminpw, not imported, with the issuer option set, and
  stores the same record under admin and under the identifier. Every later call, however
  many came before it, returns that record and leaves the state as the first call left it.
\<close>

theorem getIdentity_admin_idempotent:
  assumes "stored s ''admin'' = None"
    and "stored s (getIdentifier env (keys.certificate (generate env (generated s) ''admin''))) = None"
    and "getIdentifier env (keys.certificate (generate env (generated s) ''admin'')) \<noteq> ''admin''"
  shows "\<exists>adm s1. getIdentity env ''admin'' s = (Inr adm, s1)
       \<and> identity.identifier adm =
           getIdentifier env (keys.certificate (generate env (generated s) ''admin''))
       \<and> identity.secret adm = ''adminpw''
       \<and> \<not> identity.imported adm
       \<and> identity.options adm =
           \<lparr>identity_options.issuer = Some True, identity_options.affiliation = None\<rparr>
       \<and> stored s1 = (stored s)(''admin'' \<mapsto> adm, identity.identifier adm \<mapsto> adm)
       \<and> (\<forall>env' n.
             getIdentity env' ''admin'' (((\<lambda>t. snd (getIdentity env' ''admin'' t)) ^^ n) s1) =
               (Inr adm, s1))"
proof -
  let ?s0 = "getIdentities s"
  have miss: "collection_get ?s0 ''admin'' = Inl (NotFound ''admin'')"
    using assms(1) by (simp add: collection_get_def stored_getIdentities)
  have call: "getIdentity env ''admin'' s = createAdminIdentity env ?s0"
    by (simp add: getIdentity_def Let_def miss)
  from createAdminIdentity_fresh [of ?s0 env] assms
  obtain adm s1 where made: "createAdminIdentity env ?s0 = (Inr adm, s1)"
    and props: "identity.identifier adm =
        getIdentifier env (keys.certificate (generate env (generated s) ''admin''))"
      "identity.secret adm = ''adminpw''" "\<not> identity.imported adm"
      "identity.options adm =
        \<lparr>identity_options.issuer = Some True, identity_options.affiliation = None\<rparr>"
    by (auto simp: stored_getIdentities generated_getIdentities)
  from createAdminIdentity_Inr [OF made]
  have st: "stored s1 = (stored s)(''admin'' \<mapsto> adm, identity.identifier adm \<mapsto> adm)"
    and ne: "identity.identifier adm \<noteq> ''admin''"
    by (simp_all add: stored_getIdentities)
  have "stored s1 ''admin'' = Some adm"
    using st ne by simp
  then have again: "getIdentity env' ''admin'' s1 = (Inr adm, s1)" for env'
    by (rule getIdentity_found)
  then have "((\<lambda>t. snd (getIdentity env' ''admin'' t)) ^^ n) s1 = s1" for env' n
    by (intro funpow_fixed) simp
  with again call made props st show ?thesis
    by simp
qed

theorem getIdentity_admin_idempotent_witness:
  "\<exists>adm s1. getIdentity stub_environment ''admin'' new_session = (Inr adm, s1)
     \<and> identity.identifier adm = ''fingerprint of admin''
     \<and> identity.secret adm = ''adminpw''
     \<and> stored s1 = [''admin'' \<mapsto> adm, ''fingerprint of admin'' \<mapsto> adm]
     \<and> getIdentity stub_environment ''admin'' s1 = (Inr adm, s1)"
proof -
  have free: "stored new_session ''admin'' = None"
    "stored new_session (getIdentifier stub_environment (keys.certificate
        (generate stub_environment (generated new_session) ''admin''))) = None"
    "getIdentifier stub_environment (keys.certificate
        (generate stub_environment (generated new_session) ''admin'')) \<noteq> ''admin''"
    by (simp_all add: new_session_def stored_def stub_environment_def)
  from getIdentity_admin_idempotent [OF free]
  obtain adm s1 where
    "getIdentity stub_environment ''admin'' new_session = (Inr adm, s1)"
    "identity.identifier adm = getIdentifier stub_environment (keys.certificate
        (generate stub_environment (generated new_session) ''admin''))"
    "identity.secret adm = ''adminpw''"
    "stored s1 = (stored new_session)(''admin'' \<mapsto> adm, identity.identifier adm \<mapsto> adm)"
    "\<forall>env' n. getIdentity env' ''admin''
        (((\<lambda>t. snd (getIdentity env' ''admin'' t)) ^^ n) s1) = (Inr adm, s1)"
    by blast
  moreover from this(5) have "getIdentity stub_environment ''admin''
      (((\<lambda>t. snd (getIdentity stub_environment ''admin'' t)) ^^ 0) s1) = (Inr adm, s1)"
    by blast
  ultimately show ?thesis
    by (simp add: new_session_def stored_def stub_environment_def)
qed

subsection \<open>Testing a secret\<close>

text \<open>
  C4. For a stored record that is imported, or that is looked up under the name admin,
  \<^verbatim>\<open>testIdentity\<close> returns the record whatever secret is given. For a stored record that
  is not imported, under any other name, it returns the record exactly when the given
  secret is the stored one, and otherwise fails with the error that reports the mismatch.
\<close>

theorem testIdentity_secret:
  assumes "stored s identityName = Some idy"
  shows "(identity.imported idy \<or> identityName = ''admin'' \<longrightarrow>
            (\<forall>given. testIdentity env identityName given s = (Inr idy, s)))
       \<and> (\<not> identity.imported idy \<and> identityName \<noteq> ''admin'' \<longrightarrow>
            (\<forall>given. testIdentity env identityName given s =
               (if given = identity.secret idy then (Inr idy, s)
                else (Inl (Error (secret_mismatch given identityName (identity.secret idy))),
                      s))))"
  using assms by (auto simp: testIdentity_def getIdentity_found)

theorem testIdentity_secret_witness:
  "testIdentity stub_environment ''bob1'' ''suchsecret'' bob_session = (Inr bob, bob_session)
   \<and> testIdentity stub_environment ''bob1'' ''blahblah'' bob_session =
       (Inl (Error (''The secret blahblah specified for the identity bob1 ''
                    @ ''does not match the stored secret suchsecret'')), bob_session)
   \<and> testIdentity stub_environment ''carol'' ''blahblah'' bob_session = (Inr carol, bob_session)"
  using testIdentity_secret [of bob_session "''bob1''" bob stub_environment]
    testIdentity_secret [of bob_session "''carol''" carol stub_environment]
  by (simp add: bob_session_def stored_def bob_def carol_def secret_mismatch_def)

subsection \<open>Creating an identity\<close>

lemma permission_denied_names_caller: "sublist caller (permission_denied caller identityName)"
  unfolding permission_denied_def by (rule sublist_appendI)

text \<open>
  C7. When the issuer option of the calling identity is not true, \<^verbatim>\<open>createIdentity\<close>
  fails with the permission error, whose message contains the name of the calling identity,
  and it returns the state it was given: the collection was not ensured, read or written,
  no certificate was generated and no uuid was drawn.
\<close>

theorem createIdentity_permission:
  assumes "identity_options.issuer (identity.options (ctx_identity sc)) \<noteq> Some True"
  shows "createIdentity env sc identityName opts s =
           (Inl (Error (permission_denied (identity.name (ctx_identity sc)) identityName)), s)
       \<and> sublist (identity.name (ctx_identity sc))
           (permission_denied (identity.name (ctx_identity sc)) identityName)"
  using assms by (simp add: createIdentity_def Let_def permission_denied_names_caller)

theorem createIdentity_permission_witness:
  "createIdentity stub_environment mallory_context ''doge'' None new_session =
     (Inl (Error ''The identity mallory does not have permission to create a new identity doge''),
      new_session)"
  using createIdentity_permission [of mallory_context stub_environment "''doge''" None new_session]
  by (simp add: mallory_context_def mallory_def bob_def permission_denied_def)

lemma createIdentity_existing:
  assumes "identity_options.issuer (identity.options (ctx_identity sc)) = Some True"
    and "stored s identityName = Some idy"
  shows "createIdentity env sc identityName opts s =
           (Inr \<lparr>userID = identity.name idy, userSecret = identity.secret idy\<rparr>, s)"
  using assms
  by (simp add: createIdentity_def Let_def collection_exists_def collection_get_def
      stored_Some_dataService)

text \<open>
  For a new name, the call comes down to generating the record and adding it twice; the
  record itself is whatever the definition builds, so it is left to unification.
\<close>

lemma createIdentity_new_unfold:
  assumes "identity_options.issuer (identity.options (ctx_identity sc)) = Some True"
    and "stored s identityName = None"
  shows "\<exists>idy s4. stored s4 = stored s
     \<and> identity.identifier idy =
         getIdentifier env (keys.certificate (generate env (generated s) identityName))
     \<and> createIdentity env sc identityName opts s =
      (case collection_add identityName idy s4 of
         (Inl e, s5) \<Rightarrow> (Inl e, s5)
       | (Inr _, s5) \<Rightarrow>
           (case collection_add (identity.identifier idy) idy s5 of
              (Inl e, s6) \<Rightarrow> (Inl e, s6)
            | (Inr _, s6) \<Rightarrow>
                (Inr \<lparr>userID = identity.name idy, userSecret = identity.secret idy\<rparr>, s6)))"
proof -
  have absent: "\<not> collection_exists (getIdentities s) identityName"
    using assms(2) by (simp add: collection_exists_def stored_getIdentities)
  show ?thesis
    unfolding createIdentity_def Let_def
    apply (simp only: assms(1) absent not_not refl if_True if_False simp_thms)
    apply (intro exI conjI)
      prefer 3
      apply (rule refl)
     apply (simp add: stored_getIdentities stored_generated_update stored_drawn_update)
    apply (simp add: generated_getIdentities)
    done
qed

lemma createIdentity_fresh:
  assumes "identity_options.issuer (identity.options (ctx_identity sc)) = Some True"
    and "stored s identityName = None"
    and "stored s (getIdentifier env (keys.certificate (generate env (generated s) identityName))) = None"
    and "getIdentifier env (keys.certificate (generate env (generated s) identityName)) \<noteq> identityName"
  shows "\<exists>idy t. createIdentity env sc identityName opts s =
            (Inr \<lparr>userID = identity.name idy, userSecret = identity.secret idy\<rparr>, t)
       \<and> identity.identifier idy =
           getIdentifier env (keys.certificate (generate env (generated s) identityName))
       \<and> stored t = (stored s)(identityName \<mapsto> idy, identity.identifier idy \<mapsto> idy)"
proof -
  from createIdentity_new_unfold [OF assms(1,2), of env opts]
  obtain idy s4 where same: "stored s4 = stored s"
    and ident: "identity.identifier idy =
         getIdentifier env (keys.certificate (generate env (generated s) identityName))"
    and run: "createIdentity env sc identityName opts s =
      (case collection_add identityName idy s4 of
         (Inl e, s5) \<Rightarrow> (Inl e, s5)
       | (Inr _, s5) \<Rightarrow>
           (case collection_add (identity.identifier idy) idy s5 of
              (Inl e, s6) \<Rightarrow> (Inl e, s6)
            | (Inr _, s6) \<Rightarrow>
                (Inr \<lparr>userID = identity.name idy, userSecret = identity.secret idy\<rparr>, s6)))"
    by blast
  have first: "collection_add identityName idy s4 =
      (Inr (), s4\<lparr>dataService := Some ((stored s)(identityName \<mapsto> idy))\<rparr>)"
    using assms(2) same collection_add_fresh [of s4 identityName idy] by simp
  have second: "collection_add (identity.identifier idy) idy
        (s4\<lparr>dataService := Some ((stored s)(identityName \<mapsto> idy))\<rparr>) =
      (Inr (), s4\<lparr>dataService :=
         Some ((stored s)(identityName \<mapsto> idy, identity.identifier idy \<mapsto> idy))\<rparr>)"
    using assms(3,4) ident
    by (simp add: collection_add_def stored_dataService_update)
  have "createIdentity env sc identityName opts s =
      (Inr \<lparr>userID = identity.name idy, userSecret = identity.secret idy\<rparr>,
       s4\<lparr>dataService :=
         Some ((stored s)(identityName \<mapsto> idy, identity.identifier idy \<mapsto> idy))\<rparr>)"
    by (simp add: run first second)
  with ident show ?thesis
    by (auto simp: stored_dataService_update)
qed

text \<open>
  C6. The caller being an issuer: if an identity is already stored under the name,
  \<^verbatim>\<open>createIdentity\<close> returns the name and the secret of that record and leaves the state
  as it was. If the name is new, and the identifier of the generated certificate is a free
  key other than the name, the call stores one record under exactly two new keys, the name
  and the identifier, and a second call with that name, whatever certificate, uuid and
  options it would use, returns the result of the first and changes nothing.
\<close>

theorem createIdentity_idempotent:
  assumes "identity_options.issuer (identity.options (ctx_identity sc)) = Some True"
  shows "(\<forall>idy. stored s identityName = Some idy \<longrightarrow>
            createIdentity env sc identityName opts s =
              (Inr \<lparr>userID = identity.name idy, userSecret = identity.secret idy\<rparr>, s))
       \<and> (stored s identityName = None
          \<and> stored s (getIdentifier env
               (keys.certificate (generate env (generated s) identityName))) = None
          \<and> getIdentifier env
               (keys.certificate (generate env (generated s) identityName)) \<noteq> identityName
          \<longrightarrow>
            (\<exists>idy t. createIdentity env sc identityName opts s =
                 (Inr \<lparr>userID = identity.name idy, userSecret = identity.secret idy\<rparr>, t)
               \<and> identity.identifier idy =
                   getIdentifier env (keys.certificate (generate env (generated s) identityName))
               \<and> stored t = (stored s)(identityName \<mapsto> idy, identity.identifier idy \<mapsto> idy)
               \<and> dom (stored t) = dom (stored s) \<union> {identityName, identity.identifier idy}
               \<and> (\<forall>env' opts'. createIdentity env' sc identityName opts' t =
                     (Inr \<lparr>userID = identity.name idy, userSecret = identity.secret idy\<rparr>, t))))"
proof (intro conjI allI impI)
  fix idy
  assume "stored s identityName = Some idy"
  with assms show "createIdentity env sc identityName opts s =
      (Inr \<lparr>userID = identity.name idy, userSecret = identity.secret idy\<rparr>, s)"
    by (rule createIdentity_existing)
next
  assume new: "stored s identityName = None
      \<and> stored s (getIdentifier env
           (keys.certificate (generate env (generated s) identityName))) = None
      \<and> getIdentifier env
           (keys.certificate (generate env (generated s) identityName)) \<noteq> identityName"
  then have "\<exists>idy t. createIdentity env sc identityName opts s =
            (Inr \<lparr>userID = identity.name idy, userSecret = identity.secret idy\<rparr>, t)
       \<and> identity.identifier idy =
           getIdentifier env (keys.certificate (generate env (generated s) identityName))
       \<and> stored t = (stored s)(identityName \<mapsto> idy, identity.identifier idy \<mapsto> idy)"
    using createIdentity_fresh [OF assms, of s identityName env opts] by simp
  then obtain idy t where run: "createIdentity env sc identityName opts s =
        (Inr \<lparr>userID = identity.name idy, userSecret = identity.secret idy\<rparr>, t)"
    and ident: "identity.identifier idy =
        getIdentifier env (keys.certificate (generate env (generated s) identityName))"
    and st: "stored t = (stored s)(identityName \<mapsto> idy, identity.identifier idy \<mapsto> idy)"
    by blast
  from st have keys: "dom (stored t) = dom (stored s) \<union> {identityName, identity.identifier idy}"
    by auto
  from st ident new have "stored t identityName = Some idy"
    by simp
  with assms have "createIdentity env' sc identityName opts' t =
      (Inr \<lparr>userID = identity.name idy, userSecret = identity.secret idy\<rparr>, t)" for env' opts'
    by (rule createIdentity_existing)
  with run ident st keys
  show "\<exists>idy t. createIdentity env sc identityName opts s =
         (Inr \<lparr>userID = identity.name idy, userSecret = identity.secret idy\<rparr>, t)
       \<and> identity.identifier idy =
           getIdentifier env (keys.certificate (generate env (generated s) identityName))
       \<and> stored t = (stored s)(identityName \<mapsto> idy, identity.identifier idy \<mapsto> idy)
       \<and> dom (stored t) = dom (stored s) \<union> {identityName, identity.identifier idy}
       \<and> (\<forall>env' opts'. createIdentity env' sc identityName opts' t =
             (Inr \<lparr>userID = identity.name idy, userSecret = identity.secret idy\<rparr>, t))"
    by blast
qed

theorem createIdentity_idempotent_witness:
  "createIdentity stub_environment bound_context ''bob1'' None bob_session =
     (Inr \<lparr>userID = ''bob1'', userSecret = ''suchsecret''\<rparr>, bob_session)
   \<and> (\<exists>(idy::identity) t.
          createIdentity stub_environment bound_context ''doge'' None new_session =
          (Inr \<lparr>userID = identity.name idy, userSecret = identity.secret idy\<rparr>, t)
        \<and> dom (stored t) = {''doge'', ''fingerprint of doge''}
        \<and> createIdentity stub_environment bound_context ''doge'' None t =
            (Inr \<lparr>userID = identity.name idy, userSecret = identity.secret idy\<rparr>, t))"
proof
  have issuer: "identity_options.issuer (identity.options (ctx_identity bound_context)) = Some True"
    by (simp add: bound_context_def bob_def)
  have held: "stored bob_session ''bob1'' = Some bob"
    by (simp add: bob_session_def stored_def)
  from createIdentity_idempotent
    [OF issuer, of bob_session "''bob1''" stub_environment None, THEN conjunct1, THEN spec,
      THEN mp, OF held]
  have "createIdentity stub_environment bound_context ''bob1'' None bob_session =
     (Inr \<lparr>userID = identity.name bob, userSecret = identity.secret bob\<rparr>, bob_session)"
    .
  then show "createIdentity stub_environment bound_context ''bob1'' None bob_session =
     (Inr \<lparr>userID = ''bob1'', userSecret = ''suchsecret''\<rparr>, bob_session)"
    by (simp add: bob_def)
  have fingerprint: "getIdentifier stub_environment (keys.certificate
      (generate stub_environment (generated new_session) ''doge'')) = ''fingerprint of doge''"
    by (simp add: stub_environment_def)
  have new: "stored new_session ''doge'' = None
      \<and> stored new_session (getIdentifier stub_environment (keys.certificate
           (generate stub_environment (generated new_session) ''doge''))) = None
      \<and> getIdentifier stub_environment (keys.certificate
           (generate stub_environment (generated new_session) ''doge'')) \<noteq> ''doge''"
    by (simp add: fingerprint) (simp add: new_session_def stored_def)
  have empty: "dom (stored new_session) = {}"
    by (simp add: new_session_def stored_def)
  from createIdentity_idempotent
    [OF issuer, of new_session "''doge''" stub_environment None, THEN conjunct2, THEN mp, OF new]
  show "\<exists>(idy::identity) t.
          createIdentity stub_environment bound_context ''doge'' None new_session =
          (Inr \<lparr>userID = identity.name idy, userSecret = identity.secret idy\<rparr>, t)
        \<and> dom (stored t) = {''doge'', ''fingerprint of doge''}
        \<and> createIdentity stub_environment bound_context ''doge'' None t =
            (Inr \<lparr>userID = identity.name idy, userSecret = identity.secret idy\<rparr>, t)"
  proof (elim exE conjE)
    fix idy :: identity and t :: session
    assume first: "createIdentity stub_environment bound_context ''doge'' None new_session =
        (Inr \<lparr>userID = identity.name idy, userSecret = identity.secret idy\<rparr>, t)"
      and ident: "identity.identifier idy = getIdentifier stub_environment (keys.certificate
        (generate stub_environment (generated new_session) ''doge''))"
      and keys: "dom (stored t) = dom (stored new_session) \<union> {''doge'', identity.identifier idy}"
      and again: "\<forall>env' opts'. createIdentity env' bound_context ''doge'' opts' t =
        (Inr \<lparr>userID = identity.name idy, userSecret = identity.secret idy\<rparr>, t)"
    from keys ident have both: "dom (stored t) = {''doge'', ''fingerprint of doge''}"
      by (simp add: fingerprint empty)
    show ?thesis
    proof (rule exI [of _ idy], rule exI [of _ t], intro conjI)
      show "createIdentity stub_environment bound_context ''doge'' None new_session =
          (Inr \<lparr>userID = identity.name idy, userSecret = identity.secret idy\<rparr>, t)"
        by (rule first)
      show "dom (stored t) = {''doge'', ''fingerprint of doge''}"
        by (rule both)
      show "createIdentity stub_environment bound_context ''doge'' None t =
          (Inr \<lparr>userID = identity.name idy, userSecret = identity.secret idy\<rparr>, t)"
        by (rule again [rule_format])
    qed
  qed
qed

section \<open>Properties of the registry and the dispatcher\<close>

subsection \<open>Starting a business network\<close>

lemma start_outcome:
  "fst (start f conn sc n tx r) =
     init (createEngine f (createContainer f (created r)))
       \<lparr>context_identity = ctx_identity sc, context_connection = conn\<rparr> ''init'' [tx]"
  by (simp add: start_def Let_def)

lemma start_registry:
  "snd (start f conn sc n tx r) =
     addChaincode (getUUID (createContainer f (created r))) (createContainer f (created r))
       (createEngine f (createContainer f (created r)))
       (addBusinessNetwork n (connectionProfile conn) (getUUID (createContainer f (created r)))
          (r\<lparr>created := Suc (created r)\<rparr>))"
  by (simp add: start_def Let_def)

lemma start_businessNetworks:
  "businessNetworks (snd (start f conn sc n tx r)) =
     (businessNetworks r)(network_key n (connectionProfile conn) \<mapsto>
        getUUID (createContainer f (created r)))"
  by (simp add: start_registry addChaincode_def addBusinessNetwork_def)

lemma start_chaincodes:
  "chaincodes (snd (start f conn sc n tx r)) =
     (chaincodes r)(getUUID (createContainer f (created r)) \<mapsto>
        \<lparr>uuid = getUUID (createContainer f (created r)),
         container = createContainer f (created r),
         engine = createEngine f (createContainer f (created r))\<rparr>)"
  by (simp add: start_registry addChaincode_def addBusinessNetwork_def)

text \<open>
  C1, as the code has it. When the pair of network and profile already has a live binding,
  \<^verbatim>\<open>start\<close> still creates a new container and a new engine: it registers them under
  the uuid of the new container and binds the pair to that uuid. Afterwards the pair has
  one binding, which resolves to the new chaincode; the bindings of all other keys and the
  chaincodes under all other ids are as before, so the chaincode that was bound before
  stays in the table whenever its id differs from the new one.
\<close>

theorem start_rebinds:
  assumes "getBusinessNetwork n (connectionProfile conn) r = Some old"
    and "chaincodes r old = Some cc"
  shows "getBusinessNetwork n (connectionProfile conn) (snd (start f conn sc n tx r)) =
           Some (getUUID (createContainer f (created r)))
       \<and> chaincodes (snd (start f conn sc n tx r)) (getUUID (createContainer f (created r))) =
           Some \<lparr>uuid = getUUID (createContainer f (created r)),
                 container = createContainer f (created r),
                 engine = createEngine f (createContainer f (created r))\<rparr>
       \<and> (old \<noteq> getUUID (createContainer f (created r)) \<longrightarrow>
            chaincodes (snd (start f conn sc n tx r)) old = Some cc)
       \<and> (\<forall>k. k \<noteq> network_key n (connectionProfile conn) \<longrightarrow>
            businessNetworks (snd (start f conn sc n tx r)) k = businessNetworks r k)
       \<and> (\<forall>k. k \<noteq> getUUID (createContainer f (created r)) \<longrightarrow>
            chaincodes (snd (start f conn sc n tx r)) k = chaincodes r k)"
  using assms
  by (simp add: getBusinessNetwork_def start_businessNetworks start_chaincodes)

theorem start_rebinds_witness:
  "getBusinessNetwork ''testnetwork'' ''devFabric1''
       (snd (start (mock_factory (Inr ())) devFabric1 bound_context ''testnetwork'' ''start''
          live_registry)) =
     Some ''133c00a3-8555-4aa5-9165-9de9a8f8a838''
   \<and> chaincodes
        (snd (start (mock_factory (Inr ())) devFabric1 bound_context ''testnetwork'' ''start''
           live_registry))
        ''6eeb8858-eced-4a32-b1cd-2491f1e3718f'' =
     Some \<lparr>uuid = ''6eeb8858-eced-4a32-b1cd-2491f1e3718f'',
           container = \<lparr>getUUID = ''6eeb8858-eced-4a32-b1cd-2491f1e3718f''\<rparr>,
           engine = mock_engine (Inr ())\<rparr>"
  using start_rebinds [of "''testnetwork''" devFabric1 live_registry
      "''6eeb8858-eced-4a32-b1cd-2491f1e3718f''"
      "\<lparr>uuid = ''6eeb8858-eced-4a32-b1cd-2491f1e3718f'',
        container = \<lparr>getUUID = ''6eeb8858-eced-4a32-b1cd-2491f1e3718f''\<rparr>,
        engine = mock_engine (Inr ())\<rparr>" "mock_factory (Inr ())" bound_context "''start''"]
  by (simp add: live_registry_def empty_registry_def devFabric1_def mock_factory_def
      getBusinessNetwork_def addChaincode_def addBusinessNetwork_def network_key_def)

text \<open>
  The claim of C1 as it is written fails on the registry of the tests: the pair
  testnetwork and devFabric1 is bound to a registered chaincode, and after \<^verbatim>\<open>start\<close>
  the pair resolves to another chaincode id while the table holds two chaincodes.
\<close>

theorem start_duplicate_counterexample:
  "getBusinessNetwork ''testnetwork'' ''devFabric1'' live_registry =
     Some ''6eeb8858-eced-4a32-b1cd-2491f1e3718f''
   \<and> getChaincode (Some ''6eeb8858-eced-4a32-b1cd-2491f1e3718f'') live_registry \<noteq> None
   \<and> getBusinessNetwork ''testnetwork'' ''devFabric1''
        (snd (start (mock_factory (Inr ())) devFabric1 bound_context ''testnetwork'' ''start''
           live_registry)) =
      Some ''133c00a3-8555-4aa5-9165-9de9a8f8a838''
   \<and> dom (chaincodes
        (snd (start (mock_factory (Inr ())) devFabric1 bound_context ''testnetwork'' ''start''
           live_registry))) =
      {''6eeb8858-eced-4a32-b1cd-2491f1e3718f'', ''133c00a3-8555-4aa5-9165-9de9a8f8a838''}
   \<and> ''6eeb8858-eced-4a32-b1cd-2491f1e3718f'' \<noteq> ''133c00a3-8555-4aa5-9165-9de9a8f8a838''"
  by (auto simp: live_registry_def empty_registry_def devFabric1_def mock_factory_def
      getBusinessNetwork_def getChaincode_def addChaincode_def addBusinessNetwork_def
      network_key_def start_def Let_def)

text \<open>
  C2, as the code has it. Whatever error the engine's \<^verbatim>\<open>init\<close> rejects with, \<^verbatim>\<open>start\<close>
  rejects with that very error: an error whose message tells of an object that already
  exists is passed on like any other, and no error naming the network is made from it.
\<close>

theorem start_propagates:
  assumes "init (createEngine f (createContainer f (created r)))
             \<lparr>context_identity = ctx_identity sc, context_connection = conn\<rparr> ''init'' [tx] =
           Inl err"
  shows "fst (start f conn sc n tx r) = Inl err"
  using assms by (simp add: start_outcome)

theorem start_propagates_witness:
  "fst (start (mock_factory (Inl (Error ''some error''))) devFabric1 bound_context
          ''testnetwork'' ''start'' empty_registry) =
     Inl (Error ''some error'')"
  using start_propagates [of "mock_factory (Inl (Error ''some error''))" empty_registry
      bound_context devFabric1 "''start''" "Error ''some error''" "''testnetwork''"]
  by (simp add: mock_factory_def mock_engine_def)

text \<open>
  The claim of C2 as it is written fails when the engine reports a duplicate: the error
  \<^verbatim>\<open>start\<close> fails with is the engine's own, and its message does not name the network.
\<close>

theorem start_translation_counterexample:
  "fst (start
          (mock_factory
             (Inl (Error ''Failed to add object with ID businessnetwork as the object already exists'')))
          devFabric1 bound_context ''testnetwork'' ''start'' empty_registry) =
     Inl (Error ''Failed to add object with ID businessnetwork as the object already exists'')
   \<and> sublist ''already exists''
        ''Failed to add object with ID businessnetwork as the object already exists''
   \<and> \<not> sublist ''testnetwork''
        ''Failed to add object with ID businessnetwork as the object already exists''"
proof (intro conjI)
  show "fst (start
          (mock_factory
             (Inl (Error ''Failed to add object with ID businessnetwork as the object already exists'')))
          devFabric1 bound_context ''testnetwork'' ''start'' empty_registry) =
     Inl (Error ''Failed to add object with ID businessnetwork as the object already exists'')"
    by (simp add: start_def Let_def mock_factory_def mock_engine_def)
  show "sublist ''already exists''
        ''Failed to add object with ID businessnetwork as the object already exists''"
    by code_simp
  show "\<not> sublist ''testnetwork''
        ''Failed to add object with ID businessnetwork as the object already exists''"
    by code_simp
qed

text \<open>
  C10. The binding and the new chaincode are registered before \<^verbatim>\<open>init\<close> is called, and
  nothing is undone when it fails: if \<^verbatim>\<open>init\<close> rejects, \<^verbatim>\<open>start\<close> rejects with the
  same error and leaves the registry with the pair bound to the new chaincode id, whatever
  it was bound to before, and with the new chaincode in the table.
\<close>

theorem start_not_atomic:
  assumes "init (createEngine f (createContainer f (created r)))
             \<lparr>context_identity = ctx_identity sc, context_connection = conn\<rparr> ''init'' [tx] =
           Inl err"
  shows "start f conn sc n tx r =
           (Inl err,
            addChaincode (getUUID (createContainer f (created r))) (createContainer f (created r))
              (createEngine f (createContainer f (created r)))
              (addBusinessNetwork n (connectionProfile conn)
                 (getUUID (createContainer f (created r))) (r\<lparr>created := Suc (created r)\<rparr>)))
       \<and> getBusinessNetwork n (connectionProfile conn) (snd (start f conn sc n tx r)) =
           Some (getUUID (createContainer f (created r)))
       \<and> getChaincode (Some (getUUID (createContainer f (created r))))
           (snd (start f conn sc n tx r)) =
           Some \<lparr>uuid = getUUID (createContainer f (created r)),
                 container = createContainer f (created r),
                 engine = createEngine f (createContainer f (created r))\<rparr>"
proof (intro conjI)
  have "fst (start f conn sc n tx r) = Inl err"
    using assms by (simp add: start_outcome)
  then show "start f conn sc n tx r =
      (Inl err,
       addChaincode (getUUID (createContainer f (created r))) (createContainer f (created r))
         (createEngine f (createContainer f (created r)))
         (addBusinessNetwork n (connectionProfile conn)
            (getUUID (createContainer f (created r))) (r\<lparr>created := Suc (created r)\<rparr>)))"
    by (simp add: prod_eq_iff start_registry)
  show "getBusinessNetwork n (connectionProfile conn) (snd (start f conn sc n tx r)) =
      Some (getUUID (createContainer f (created r)))"
    by (simp add: getBusinessNetwork_def start_businessNetworks)
  show "getChaincode (Some (getUUID (createContainer f (created r))))
      (snd (start f conn sc n tx r)) =
      Some \<lparr>uuid = getUUID (createContainer f (created r)),
            container = createContainer f (created r),
            engine = createEngine f (createContainer f (created r))\<rparr>"
    by (simp add: getChaincode_def start_chaincodes)
qed

theorem start_not_atomic_witness:
  "fst (start (mock_factory (Inl (Error ''init failed''))) devFabric1 bound_context
          ''testnetwork'' ''start'' live_registry) =
     Inl (Error ''init failed'')
   \<and> getBusinessNetwork ''testnetwork'' ''devFabric1'' live_registry =
       Some ''6eeb8858-eced-4a32-b1cd-2491f1e3718f''
   \<and> getBusinessNetwork ''testnetwork'' ''devFabric1''
        (snd (start (mock_factory (Inl (Error ''init failed''))) devFabric1 bound_context
           ''testnetwork'' ''start'' live_registry)) =
       Some ''133c00a3-8555-4aa5-9165-9de9a8f8a838''
   \<and> getChaincode (Some ''133c00a3-8555-4aa5-9165-9de9a8f8a838'')
        (snd (start (mock_factory (Inl (Error ''init failed''))) devFabric1 bound_context
           ''testnetwork'' ''start'' live_registry)) \<noteq> None"
proof -
  have rejected: "init (createEngine (mock_factory (Inl (Error ''init failed'')))
             (createContainer (mock_factory (Inl (Error ''init failed''))) (created live_registry)))
           \<lparr>context_identity = ctx_identity bound_context, context_connection = devFabric1\<rparr>
           ''init'' [''start''] = Inl (Error ''init failed'')"
    by (simp add: mock_factory_def mock_engine_def)
  have new_uuid: "getUUID (createContainer (mock_factory (Inl (Error ''init failed'')))
      (created live_registry)) = ''133c00a3-8555-4aa5-9165-9de9a8f8a838''"
    by (simp add: mock_factory_def)
  have profile: "connectionProfile devFabric1 = ''devFabric1''"
    by (simp add: devFabric1_def)
  have before: "getBusinessNetwork ''testnetwork'' ''devFabric1'' live_registry =
      Some ''6eeb8858-eced-4a32-b1cd-2491f1e3718f''"
    by (simp add: live_registry_def empty_registry_def getBusinessNetwork_def addChaincode_def
        addBusinessNetwork_def)
  note outcome = start_not_atomic [OF rejected, of "''testnetwork''"]
  have failed: "fst (start (mock_factory (Inl (Error ''init failed''))) devFabric1 bound_context
      ''testnetwork'' ''start'' live_registry) = Inl (Error ''init failed'')"
    using outcome [THEN conjunct1] by simp
  have bound: "getBusinessNetwork ''testnetwork'' ''devFabric1''
      (snd (start (mock_factory (Inl (Error ''init failed''))) devFabric1 bound_context
         ''testnetwork'' ''start'' live_registry)) =
      Some ''133c00a3-8555-4aa5-9165-9de9a8f8a838''"
    using outcome [THEN conjunct2, THEN conjunct1] by (simp add: new_uuid profile)
  have registered: "getChaincode (Some ''133c00a3-8555-4aa5-9165-9de9a8f8a838'')
      (snd (start (mock_factory (Inl (Error ''init failed''))) devFabric1 bound_context
         ''testnetwork'' ''start'' live_registry)) \<noteq> None"
    using outcome [THEN conjunct2, THEN conjunct2] by (simp add: new_uuid)
  from failed before bound registered show ?thesis
    by (intro conjI)
qed

subsection \<open>Undeploying a business network\<close>

text \<open>
  C9. A chaincode id is the uuid of a container, hence not the empty string. When the pair
  of network and profile is bound to such an id, \<^verbatim>\<open>undeploy\<close> succeeds, removes the
  binding and removes the chaincode under that id from the table; when the pair has no
  binding, \<^verbatim>\<open>undeploy\<close> succeeds and returns the registry as it was.
\<close>

theorem undeploy_cascades:
  "(getBusinessNetwork n (connectionProfile conn) r = None \<longrightarrow>
      undeploy conn sc n r = (Inr (), r))
   \<and> (\<forall>u. getBusinessNetwork n (connectionProfile conn) r = Some u \<and> u \<noteq> [] \<longrightarrow>
        undeploy conn sc n r =
          (Inr (),
           r\<lparr>chaincodes := (chaincodes r)(u := None),
             businessNetworks :=
               (businessNetworks r)(network_key n (connectionProfile conn) := None)\<rparr>)
        \<and> getBusinessNetwork n (connectionProfile conn) (snd (undeploy conn sc n r)) = None
        \<and> getChaincode (Some u) (snd (undeploy conn sc n r)) = None)"
  by (simp add: undeploy_def deleteBusinessNetwork_def getBusinessNetwork_def getChaincode_def)

theorem undeploy_cascades_witness:
  "undeploy devFabric1 bound_context ''testnetwork'' live_registry =
     (Inr (), empty_registry\<lparr>created := 1\<rparr>)
   \<and> undeploy devFabric1 bound_context ''org.acme.Business'' live_registry =
       (Inr (), live_registry)"
  using undeploy_cascades [of "''testnetwork''" devFabric1 live_registry bound_context]
    undeploy_cascades [of "''org.acme.Business''" devFabric1 live_registry bound_context]
  by (simp add: devFabric1_def live_registry_def empty_registry_def getBusinessNetwork_def
      addChaincode_def addBusinessNetwork_def network_key_def)

subsection \<open>Dispatching a query or an invocation\<close>

text \<open>
  C3, as the code has it. When the chaincode id of the security context resolves to no
  registered chaincode, be it absent or stale, \<^verbatim>\<open>queryChainCode\<close> and
  \<^verbatim>\<open>invokeChainCode\<close> both fail before any engine is called, and the failure is the
  runtime's TypeError for reading the property engine of \<^verbatim>\<open>undefined\<close>, not an error of
  the connection's own.
\<close>

theorem dispatch_unresolved:
  assumes "getChaincode (ctx_chaincodeID sc) r = None"
  shows "queryChainCode stringify conn sc functionName args r = Inl (TypeError ''engine'')
       \<and> invokeChainCode conn sc functionName args r = Inl (TypeError ''engine'')"
  using assms by (simp add: queryChainCode_def invokeChainCode_def Let_def)

theorem dispatch_unresolved_witness:
  "queryChainCode (\<lambda>data. ''null'') devFabric1 unbound_context ''ping'' [] live_registry =
     Inl (TypeError ''engine'')
   \<and> invokeChainCode devFabric1 unbound_context ''testFunction'' [''arg1'', ''arg2'']
        live_registry =
       Inl (TypeError ''engine'')"
  using dispatch_unresolved [of unbound_context live_registry "\<lambda>data. ''null''" devFabric1
      "''ping''" "[]"]
    dispatch_unresolved [of unbound_context live_registry "\<lambda>data. ''null''" devFabric1
      "''testFunction''" "[''arg1'', ''arg2'']"]
  by (simp add: unbound_context_def live_registry_def empty_registry_def getChaincode_def
      addChaincode_def addBusinessNetwork_def)

text \<open>
  The claim of C3 as it is written fails for a stale id: on the empty registry, a context
  bound to a chaincode id that is no longer registered makes both calls fail with the
  TypeError.
\<close>

theorem dispatch_stale_counterexample:
  "getChaincode (ctx_chaincodeID bound_context) empty_registry = None
   \<and> queryChainCode (\<lambda>data. ''null'') devFabric1 bound_context ''testFunction''
        [''arg1'', ''arg2''] empty_registry =
       Inl (TypeError ''engine'')
   \<and> invokeChainCode devFabric1 bound_context ''testFunction'' [''arg1'', ''arg2'']
        empty_registry =
       Inl (TypeError ''engine'')"
  by (simp add: queryChainCode_def invokeChainCode_def Let_def getChaincode_def
      bound_context_def empty_registry_def)

end
